theory Spec2Isabelle
  imports Main
begin

section \<open>Python values, exceptions and results\<close>

text \<open>
  The model follows \<^verbatim>\<open>tinyback/services.py\<close> (Python 2). A byte string and a unicode
  string are both a \<^typ>\<open>string\<close>; the conversions between them are the library's and
  are taken from the library record below. A \<^verbatim>\<open>fetch\<close> either returns a Python value or
  raises; a raise is the left summand of the result.
\<close>

datatype pyval =
    PNone
  | PBool bool
  | PInt int
  | PFloat string
  | PStr string
  | PList "pyval list"
  | PDict "(string \<times> pyval) list"

text \<open>
  The four exception classes of \<^verbatim>\<open>tinyback.exceptions\<close> (the optional argument is the
  message), and the built-in exceptions that the code of this file can raise.
\<close>

datatype exn =
    ServiceException string
  | NoRedirectException "string option"
  | CodeBlockedException "string option"
  | BlockedException "string option"
  | ValueError string
  | RuntimeError string
  | NameError string
  | KeyError string
  | TypeError
  | AttributeError
  | UnicodeDecodeError
  | InvalidURL string

type_synonym result = "exn + pyval"

text \<open>
  The five outcome kinds of the specification, and the outcome a result stands for. A
  returned value that is not a string, and an exception outside \<^verbatim>\<open>tinyback.exceptions\<close>,
  are none of the five.
\<close>

datatype outcome =
    LongURL string
  | NoRedirect
  | CodeBlocked "string option"
  | ServiceBlocked "string option"
  | ServiceError string

fun outcome_of :: "result \<Rightarrow> outcome option" where
  "outcome_of (Inr (PStr s)) = Some (LongURL s)"
| "outcome_of (Inl (ServiceException m)) = Some (ServiceError m)"
| "outcome_of (Inl (NoRedirectException m)) = Some NoRedirect"
| "outcome_of (Inl (CodeBlockedException m)) = Some (CodeBlocked m)"
| "outcome_of (Inl (BlockedException m)) = Some (ServiceBlocked m)"
| "outcome_of r = None"

fun is_ServiceError :: "result \<Rightarrow> bool" where
  "is_ServiceError (Inl (ServiceException m)) = True"
| "is_ServiceError r = False"

subsection \<open>String helpers\<close>

text \<open>\<^verbatim>\<open>"%i" % n\<close>: the decimal digits of an integer.\<close>

fun str_nat :: "nat \<Rightarrow> string" where
  "str_nat n =
     (if n < 10 then [''0123456789'' ! n]
      else str_nat (n div 10) @ [''0123456789'' ! (n mod 10)])"

declare str_nat.simps [simp del]

definition str_int :: "int \<Rightarrow> string" where
  "str_int i = (if i < 0 then ''-'' @ str_nat (nat (- i)) else str_nat (nat i))"

text \<open>\<^verbatim>\<open>s.startswith(p)\<close> and \<^verbatim>\<open>needle in hay\<close> on strings.\<close>

definition startswith :: "string \<Rightarrow> string \<Rightarrow> bool" where
  "startswith s p = (take (length p) s = p)"

fun str_in :: "string \<Rightarrow> string \<Rightarrow> bool" where
  "str_in needle [] = (needle = [])"
| "str_in needle (c # cs) = (startswith (c # cs) needle \<or> str_in needle cs)"

text \<open>\<^verbatim>\<open>s.decode("ascii")\<close> succeeds exactly on bytes below 128.\<close>

definition is_ascii :: "string \<Rightarrow> bool" where
  "is_ascii s = list_all (\<lambda>c. (of_char c :: nat) < 128) s"

text \<open>
  \<^verbatim>\<open>key in data\<close> and \<^verbatim>\<open>data[key]\<close> for a string key, by the type of \<^verbatim>\<open>data\<close>: a
  dictionary looks the key up, a list compares its elements, a string searches for a
  substring, and every other value raises \<^verbatim>\<open>TypeError\<close>; only a dictionary can be
  indexed by a string.
\<close>

fun py_contains :: "string \<Rightarrow> pyval \<Rightarrow> exn + bool" where
  "py_contains k (PDict kvs) = Inr (k \<in> fst ` set kvs)"
| "py_contains k (PList xs) = Inr (PStr k \<in> set xs)"
| "py_contains k (PStr s) = Inr (str_in k s)"
| "py_contains k v = Inl TypeError"

fun py_getitem :: "pyval \<Rightarrow> string \<Rightarrow> exn + pyval" where
  "py_getitem (PDict kvs) k =
     (case map_of kvs k of None \<Rightarrow> Inl (KeyError k) | Some v \<Rightarrow> Inr v)"
| "py_getitem v k = Inl TypeError"

section \<open>The library and the network\<close>

text \<open>
  The functions of the Python standard library that the services call are parameters of
  the model: \<^verbatim>\<open>urlparse.urlparse\<close> (\<open>None\<close> when it raises \<^verbatim>\<open>ValueError\<close>),
  \<^verbatim>\<open>urlparse.parse_qs\<close>, \<^verbatim>\<open>urllib.urlencode\<close>, \<^verbatim>\<open>json.loads\<close> (\<open>None\<close> when it raises
  \<^verbatim>\<open>ValueError\<close>), \<^verbatim>\<open>re.search(pattern, data[, re.DOTALL])\<close> followed by \<^verbatim>\<open>group(1)\<close>
  (\<open>None\<close> when there is no match), \<^verbatim>\<open>decode("utf-8")\<close> (\<open>None\<close> when it raises
  \<^verbatim>\<open>UnicodeDecodeError\<close>), \<^verbatim>\<open>encode("utf-8")\<close>, \<^verbatim>\<open>HTMLParser.unescape\<close>, \<^verbatim>\<open>"%s" % v\<close>,
  \<^verbatim>\<open>platform.python_version_tuple\<close> and the check of \<^verbatim>\<open>host:port\<close> that the constructor
  of an \<^verbatim>\<open>httplib\<close> connection makes.
\<close>

record parsed_url =
  scheme :: string
  netloc :: string
  upath :: string
  uquery :: string
  hostname :: "string option"

record pylib =
  urlparse :: "string \<Rightarrow> parsed_url option"
  parse_qs :: "string \<Rightarrow> (string \<rightharpoonup> string list)"
  urlencode :: "(string \<times> string) list \<Rightarrow> string"
  json_loads :: "string \<Rightarrow> pyval option"
  re_search :: "string \<Rightarrow> bool \<Rightarrow> string \<Rightarrow> string option"
  decode_utf8 :: "string \<Rightarrow> string option"
  encode_utf8 :: "string \<Rightarrow> string"
  html_unescape :: "string \<Rightarrow> string"
  format_s :: "pyval \<Rightarrow> string"
  python_version :: "nat \<times> nat"
  hostport_ok :: "string \<Rightarrow> bool"

text \<open>
  One HTTP exchange: the request that \<^verbatim>\<open>self._conn.request\<close> sends, and what
  \<^verbatim>\<open>getresponse\<close> and \<^verbatim>\<open>read\<close> give back: a response with its body, or one of the two
  exceptions that the code catches. The network is a function from requests to exchange
  results; no \<^verbatim>\<open>fetch\<close> sends the same request twice. Closing the connection
  (\<^verbatim>\<open>self._conn.close()\<close>) changes no result of the call and is not modelled.
\<close>

record resp =
  status :: int
  reason :: string
  getheader :: "string \<Rightarrow> string option"

record request =
  rmethod :: string
  rpath :: string
  rheaders :: "string \<rightharpoonup> string"

datatype xresult =
    Response resp string
  | HTTPException string
  | SocketError string

type_synonym net = "request \<Rightarrow> xresult"

definition exchange :: "net \<Rightarrow> request \<Rightarrow> exn + (resp \<times> string)" where
  "exchange nw rq =
     (case nw rq of
        Response r d \<Rightarrow> Inr (r, d)
      | HTTPException e \<Rightarrow> Inl (ServiceException (''HTTP exception: '' @ e))
      | SocketError e \<Rightarrow> Inl (ServiceException (''Socket error: '' @ e)))"

section \<open>Service, HTTPService and SimpleService\<close>

text \<open>
  A class is a record of its properties; a subclass that overrides a property is another
  value of the record. The attributes that \<^verbatim>\<open>HTTPService.__init__\<close> sets and the
  exchanges read are the instance.
\<close>

record service_class =
  charset :: string
  rate_limit :: "(nat \<times> nat) option"

record http_class = service_class +
  url :: string
  http_headers :: "string \<rightharpoonup> string"
  http_keepalive :: bool

record simple_class = http_class +
  http_status_redirect :: "int list"
  http_status_no_redirect :: "int list"
  http_status_code_blocked :: "int list"
  http_status_blocked :: "int list"

record http_inst =
  ipath :: string
  ihostname :: string

definition http_request :: "'a http_class_scheme \<Rightarrow> http_inst \<Rightarrow> string \<Rightarrow> string \<Rightarrow> request" where
  "http_request cls inst code meth =
     \<lparr>rmethod = meth, rpath = ipath inst @ code,
      rheaders = (http_headers cls)
        (''Connection'' \<mapsto> (if http_keepalive cls then ''Keep-Alive'' else ''close''),
         ''Host'' \<mapsto> ihostname inst)\<rparr>"

definition http_fetch ::
  "'a http_class_scheme \<Rightarrow> http_inst \<Rightarrow> net \<Rightarrow> string \<Rightarrow> string \<Rightarrow> exn + (resp \<times> string)" where
  "http_fetch cls inst nw code meth = exchange nw (http_request cls inst code meth)"

definition http_head :: "'a http_class_scheme \<Rightarrow> http_inst \<Rightarrow> net \<Rightarrow> string \<Rightarrow> exn + resp" where
  "http_head cls inst nw code =
     (case http_fetch cls inst nw code ''HEAD'' of Inl e \<Rightarrow> Inl e | Inr (r, d) \<Rightarrow> Inr r)"

definition http_get ::
  "'a http_class_scheme \<Rightarrow> http_inst \<Rightarrow> net \<Rightarrow> string \<Rightarrow> exn + (resp \<times> string)" where
  "http_get cls inst nw code = http_fetch cls inst nw code ''GET''"

definition SimpleService_unexpected_http_status :: "string \<Rightarrow> resp \<Rightarrow> result" where
  "SimpleService_unexpected_http_status code r =
     Inl (ServiceException (''Unexpected HTTP status '' @ str_int (status r)))"

text \<open>
  \<^verbatim>\<open>SimpleService.fetch\<close>; \<open>hook\<close> is the \<^verbatim>\<open>unexpected_http_status\<close> of the object's
  class. \<^verbatim>\<open>not location\<close> holds for a missing header and for an empty one.
\<close>

definition SimpleService_fetch ::
  "'a simple_class_scheme \<Rightarrow> http_inst \<Rightarrow> (string \<Rightarrow> resp \<Rightarrow> result) \<Rightarrow> net \<Rightarrow> string \<Rightarrow> result" where
  "SimpleService_fetch cls inst hook nw code =
     (case http_head cls inst nw code of
        Inl e \<Rightarrow> Inl e
      | Inr r \<Rightarrow>
          if status r \<in> set (http_status_redirect cls) then
            (case getheader r ''Location'' of
               None \<Rightarrow> Inl (ServiceException ''No Location header after HTTP status 301'')
             | Some location \<Rightarrow>
                 if location = []
                 then Inl (ServiceException ''No Location header after HTTP status 301'')
                 else Inr (PStr location))
          else if status r \<in> set (http_status_no_redirect cls) then
            Inl (NoRedirectException None)
          else if status r \<in> set (http_status_code_blocked cls) then
            Inl (CodeBlockedException None)
          else if status r \<in> set (http_status_blocked cls) then
            Inl (BlockedException None)
          else hook code r)"

section \<open>YourlsService\<close>

record yourls_class =
  rate_limit_y :: "(nat \<times> nat) option"
  yourls_api_url :: string
  yourls_url_convert :: int

datatype conn_class = HTTPConnection | HTTPSConnection

record conn =
  klass :: conn_class
  chost :: string
  ctimeout :: "nat option"

record yourls_inst =
  ypath :: string
  yconn :: conn

text \<open>The \<^verbatim>\<open>charset\<close> property: computed, and raising, on each access.\<close>

definition YourlsService_charset :: "yourls_class \<Rightarrow> exn + string" where
  "YourlsService_charset cls =
     (if yourls_url_convert cls = 36 then
        Inr ''0123456789abcdefghijklmnopqrstuvwxyz''
      else if yourls_url_convert cls = 62 then
        Inr ''0123456789abcdefghijklmnopqrstuvwxyzABCDEFGHIJKLMNOPQRSTUVWXYZ''
      else Inl (RuntimeError ''Bad value for yourls_url_convert parameter''))"

text \<open>
  \<^verbatim>\<open>klass(netloc)\<close> or \<^verbatim>\<open>klass(netloc, timeout=30)\<close>, by the version of the interpreter.
\<close>

definition new_connection :: "pylib \<Rightarrow> conn_class \<Rightarrow> string \<Rightarrow> exn + conn" where
  "new_connection lib k h =
     (if hostport_ok lib h then
        Inr \<lparr>klass = k, chost = h,
             ctimeout =
               (if fst (python_version lib) = 2 \<and> snd (python_version lib) \<le> 5
                then None else Some 30)\<rparr>
      else Inl (InvalidURL h))"

definition YourlsService_init :: "pylib \<Rightarrow> yourls_class \<Rightarrow> exn + yourls_inst" where
  "YourlsService_init lib cls =
     (case urlparse lib (yourls_api_url cls) of
        None \<Rightarrow> Inl (ValueError ''Invalid IPv6 URL'')
      | Some parsed_url \<Rightarrow>
          (let path = (if upath parsed_url = [] then ''/'' else upath parsed_url) in
           if scheme parsed_url = ''http'' then
             (case new_connection lib HTTPConnection (netloc parsed_url) of
                Inl e \<Rightarrow> Inl e
              | Inr c \<Rightarrow> Inr \<lparr>ypath = path, yconn = c\<rparr>)
           else if scheme parsed_url = ''https'' then
             (case new_connection lib HTTPSConnection (netloc parsed_url) of
                Inl e \<Rightarrow> Inl e
              | Inr c \<Rightarrow> Inr \<lparr>ypath = path, yconn = c\<rparr>)
           else Inl (ValueError (''Unknown scheme '' @ scheme parsed_url))))"

definition yourls_request :: "pylib \<Rightarrow> yourls_inst \<Rightarrow> string \<Rightarrow> request" where
  "yourls_request lib inst code =
     \<lparr>rmethod = ''GET'',
      rpath = ypath inst @ ''?'' @
        urlencode lib [(''action'', ''expand''), (''shorturl'', code), (''format'', ''simple'')],
      rheaders = Map.empty\<rparr>"

definition YourlsService_fetch :: "pylib \<Rightarrow> yourls_inst \<Rightarrow> net \<Rightarrow> string \<Rightarrow> result" where
  "YourlsService_fetch lib inst nw code =
     (case exchange nw (yourls_request lib inst code) of
        Inl e \<Rightarrow> Inl e
      | Inr (r, data) \<Rightarrow>
          if status r = 200 then
            (if data = ''not found'' then Inl (NoRedirectException None) else Inr (PStr data))
          else Inl (ServiceException (''Unexpected HTTP status '' @ str_int (status r))))"

definition Vbly_class :: yourls_class where
  "Vbly_class =
     \<lparr>rate_limit_y = Some (2, 1), yourls_api_url = ''http://vbly.us/yourls-api.php'',
      yourls_url_convert = 36\<rparr>"

definition Arsehat_class :: yourls_class where
  "Arsehat_class =
     \<lparr>rate_limit_y = Some (2, 1), yourls_api_url = ''http://arseh.at/api.php'',
      yourls_url_convert = 36\<rparr>"

section \<open>Bitly\<close>

definition Bitly_class :: http_class where
  "Bitly_class =
     \<lparr>charset = ''0123456789abcdefghijklmnopqrstuvwxyzABCDEFGHIJKLMNOPQRSTUVWXYZ-_'',
      rate_limit = Some (2, 1), url = ''http://bit.ly/'', http_headers = Map.empty,
      http_keepalive = True\<rparr>"

definition Bitly_parse_warning_url :: "pylib \<Rightarrow> string \<Rightarrow> string \<Rightarrow> result" where
  "Bitly_parse_warning_url lib code location =
     (case urlparse lib location of
        None \<Rightarrow> Inl (ValueError ''Invalid IPv6 URL'')
      | Some u \<Rightarrow>
          if scheme u \<noteq> ''http'' \<or> netloc u \<noteq> ''bit.ly'' \<or> upath u \<noteq> ''/a/warning'' then
            Inl (ServiceException ''Unexpected Location header after HTTP status 302'')
          else
            (let query = parse_qs lib (uquery u) in
             case (query ''url'', query ''hash'') of
               (Some [v], Some [h]) \<Rightarrow>
                 if h \<noteq> code then Inl (ServiceException ''Hash mismatch for HTTP status 302'')
                 else Inr (PStr v)
             | _ \<Rightarrow>
                 Inl (ServiceException ''Unexpected Location header after HTTP status 302'')))"

definition Bitly_fetch :: "pylib \<Rightarrow> http_inst \<Rightarrow> net \<Rightarrow> string \<Rightarrow> result" where
  "Bitly_fetch lib inst nw code =
     (case http_head Bitly_class inst nw code of
        Inl e \<Rightarrow> Inl e
      | Inr r \<Rightarrow>
          if status r = 301 then
            (case getheader r ''Location'' of
               None \<Rightarrow> Inl (ServiceException ''No Location header after HTTP status 301'')
             | Some location \<Rightarrow>
                 if location = [] then
                   Inl (ServiceException ''No Location header after HTTP status 301'')
                 else if reason r = ''Moved'' then Inr (PStr location)
                 else if reason r = ''Moved Permanently'' then Inl (CodeBlockedException None)
                 else Inl (ServiceException
                   (''Unknown HTTP reason '' @ reason r @ '' after HTTP status 301'')))
          else if status r = 302 then
            (case getheader r ''Location'' of
               None \<Rightarrow> Inl (ServiceException ''No Location header after HTTP status 302'')
             | Some location \<Rightarrow>
                 if location = [] then
                   Inl (ServiceException ''No Location header after HTTP status 302'')
                 else Bitly_parse_warning_url lib code location)
          else if status r = 403 then Inl (BlockedException None)
          else if status r = 404 then Inl (NoRedirectException None)
          else if status r = 410 then Inl (CodeBlockedException None)
          else Inl (ServiceException (''Unknown HTTP status '' @ str_int (status r))))"

text \<open>
  The message of the consistency check between the two exchanges of one \<^verbatim>\<open>fetch\<close>:
  \<^verbatim>\<open>"HTTP status changed from <first> to %i on second request" % resp.status\<close>.
\<close>

definition status_changed :: "string \<Rightarrow> int \<Rightarrow> exn" where
  "status_changed first s2 =
     ServiceException
       (''HTTP status changed from '' @ first @ '' to '' @ str_int s2 @ '' on second request'')"

text \<open>
  \<^verbatim>\<open>url = match.group(1).decode("utf-8")\<close> followed by
  \<^verbatim>\<open>HTMLParser.HTMLParser().unescape(url).encode("utf-8")\<close>.
\<close>

definition unescape_utf8 :: "pylib \<Rightarrow> string \<Rightarrow> exn + string" where
  "unescape_utf8 lib g =
     (case decode_utf8 lib g of
        None \<Rightarrow> Inl UnicodeDecodeError
      | Some u \<Rightarrow> Inr (encode_utf8 lib (html_unescape lib u)))"

section \<open>Isgd\<close>

definition Isgd_class :: simple_class where
  "Isgd_class =
     \<lparr>charset = ''0123456789abcdefghijklmnopqrstuvwxyzABCDEFGHIJKLMNOPQRSTUVWXYZ_'',
      rate_limit = Some (60, 60), url = ''http://is.gd/'', http_headers = Map.empty,
      http_keepalive = True,
      http_status_redirect = [301, 302], http_status_no_redirect = [404],
      http_status_code_blocked = [502], http_status_blocked = [403, 420, 429]\<rparr>"

definition Isgd_blocked_pattern :: string where
  \<open>Isgd_blocked_pattern =
     ''<p>For reference and to help those fighting spam the original destination of this URL is given below ''
     @ [CHR 0x5C] @ ''(we strongly recommend you don't visit it since it may damage your PC''
     @ [CHR 0x5C] @ ''): -<br />(.*)</p><h2>is'' @ [CHR 0x5C] @ ''.gd</h2><p>is''
     @ [CHR 0x5C] @ ''.gd is a free service used to shorten long URLs'' @ [CHR 0x5C] @ ''.''\<close>

definition Isgd_parse_blocked :: "pylib \<Rightarrow> string \<Rightarrow> string \<Rightarrow> result" where
  \<open>Isgd_parse_blocked lib code data =
     (case re_search lib Isgd_blocked_pattern False data of
        None \<Rightarrow> Inl (ServiceException ''Could not find target URL in 'Link Disabled' page'')
      | Some g \<Rightarrow>
          (case unescape_utf8 lib g of
             Inl e \<Rightarrow> Inl e
           | Inr u \<Rightarrow>
               if u = [] then Inl (CodeBlockedException (Some ''Empty URL on preview''))
               else Inr (PStr u)))\<close>

definition Isgd_parse_preview :: "pylib \<Rightarrow> string \<Rightarrow> string \<Rightarrow> result" where
  \<open>Isgd_parse_preview lib code data =
     (case re_search lib
        ''<b>Click the link</b> if you'd like to proceed to the destination shown: -<br /><a href="(.*)" class="biglink">''
        False data of
        None \<Rightarrow> Inl (ServiceException ''Could not find target URL in 'Preview' page'')
      | Some g \<Rightarrow>
          (case unescape_utf8 lib g of Inl e \<Rightarrow> Inl e | Inr u \<Rightarrow> Inr (PStr u)))\<close>

text \<open>
  \<^verbatim>\<open>Isgd.unexpected_http_status\<close>. The method ends after its last \<^verbatim>\<open>if\<close>: a page with none
  of the three markers makes it return \<^verbatim>\<open>None\<close>.
\<close>

definition Isgd_unexpected_http_status ::
  "pylib \<Rightarrow> 'a http_class_scheme \<Rightarrow> http_inst \<Rightarrow> net \<Rightarrow> string \<Rightarrow> resp \<Rightarrow> result" where
  \<open>Isgd_unexpected_http_status lib cls inst nw code r =
     (if status r \<noteq> 200 then SimpleService_unexpected_http_status code r
      else
        (case http_get cls inst nw code of
           Inl e \<Rightarrow> Inl e
         | Inr (r2, data) \<Rightarrow>
             if status r2 \<noteq> 200 then Inl (status_changed ''200'' (status r2))
             else if data = [] then
               Inl (CodeBlockedException (Some ''Empty response on status 200''))
             else if str_in
               ''<div id="main"><p>Rate limit exceeded - please wait 1 minute before accessing more shortened URLs</p></div>''
               data then Inl (BlockedException None)
             else if str_in ''<div id="disabled"><h2>Link Disabled</h2>'' data then
               Isgd_parse_blocked lib code data
             else if str_in
               ''<p>The full original link is shown below. <b>Click the link</b> if you'd like to proceed to the destination shown:''
               data then Isgd_parse_preview lib code data
             else Inr PNone))\<close>

definition Isgd_fetch :: "pylib \<Rightarrow> http_inst \<Rightarrow> net \<Rightarrow> string \<Rightarrow> result" where
  "Isgd_fetch lib inst nw code =
     SimpleService_fetch Isgd_class inst
       (Isgd_unexpected_http_status lib Isgd_class inst nw) nw code"

section \<open>Owly\<close>

definition Owly_class :: simple_class where
  "Owly_class =
     \<lparr>charset = ''0123456789abcdefghijklmnopqrstuvwxyzABCDEFGHIJKLMNOPQRSTUVWXYZ'',
      rate_limit = Some (2, 1), url = ''http://ow.ly/'', http_headers = Map.empty,
      http_keepalive = True,
      http_status_redirect = [301, 302], http_status_no_redirect = [404],
      http_status_code_blocked = [410], http_status_blocked = [403, 420, 429]\<rparr>"

definition Owly_unexpected_http_status ::
  "pylib \<Rightarrow> 'a http_class_scheme \<Rightarrow> http_inst \<Rightarrow> net \<Rightarrow> string \<Rightarrow> resp \<Rightarrow> result" where
  \<open>Owly_unexpected_http_status lib cls inst nw code r =
     (if status r \<noteq> 200 then SimpleService_unexpected_http_status code r
      else
        (case http_get cls inst nw code of
           Inl e \<Rightarrow> Inl e
         | Inr (r2, data) \<Rightarrow>
             if status r2 \<noteq> 200 then Inl (status_changed ''200'' (status r2))
             else
               (case re_search lib ''<a class="btn ignore" href="(.*?)" title='' False data of
                  None \<Rightarrow> Inl (ServiceException ''Could not find target URL in safety warning'')
                | Some g \<Rightarrow>
                    (case unescape_utf8 lib g of Inl e \<Rightarrow> Inl e | Inr u \<Rightarrow> Inr (PStr u)))))\<close>

definition Owly_fetch :: "pylib \<Rightarrow> http_inst \<Rightarrow> net \<Rightarrow> string \<Rightarrow> result" where
  "Owly_fetch lib inst nw code =
     SimpleService_fetch Owly_class inst
       (Owly_unexpected_http_status lib Owly_class inst nw) nw code"

section \<open>Tinyurl\<close>

definition Tinyurl_class :: http_class where
  "Tinyurl_class =
     \<lparr>charset = ''0123456789abcdefghijklmnopqrstuvwxyz'', rate_limit = Some (2, 1),
      url = ''http://tinyurl.com/'', http_headers = Map.empty, http_keepalive = True\<rparr>"

definition Tinyurl_parse_errorhelp :: "pylib \<Rightarrow> string \<Rightarrow> string \<Rightarrow> result" where
  \<open>Tinyurl_parse_errorhelp lib code data =
     (case re_search lib ''<meta http-equiv="refresh" content="0;url=(.*?)">'' False data of
        None \<Rightarrow> Inl (ServiceException ''No redirect on "errorhelp" page on HTTP status 200'')
      | Some g \<Rightarrow>
          (case urlparse lib g of
             None \<Rightarrow> Inl (ValueError ''Invalid IPv6 URL'')
           | Some u \<Rightarrow>
               if scheme u \<noteq> ''http'' \<or> netloc u \<noteq> ''tinyurl.com'' \<or> upath u \<noteq> ''/errorb.php''
               then Inl (ServiceException
                 ''Unexpected redirect on "errorhelp" page  on HTTP status 200'')
               else
                 (let query = parse_qs lib (uquery u) in
                  case (query ''url'', query ''path'') of
                    (Some [v], Some [p]) \<Rightarrow>
                      if p \<noteq> ''/'' @ code then
                        Inl (ServiceException ''Code mismatch on "errorhelp" on HTTP status 200'')
                      else Inr (PStr v)
                  | _ \<Rightarrow>
                      Inl (ServiceException
                        ''Unexpected redirect on "errorhelp" page  on HTTP status 200''))))\<close>

definition Tinyurl_redirect_pattern :: string where
  \<open>Tinyurl_redirect_pattern =
     ''<p class="intro">The URL you followed redirects back to a TinyURL and therefore we can't directly send you to the site''
     @ [CHR 0x5C] @ ''. The URL it redirects to is <a href="(.*?)">''\<close>

definition Tinyurl_parse_tinyurl_redirect :: "pylib \<Rightarrow> string \<Rightarrow> result" where
  \<open>Tinyurl_parse_tinyurl_redirect lib data =
     (case re_search lib Tinyurl_redirect_pattern True data of
        None \<Rightarrow>
          Inl (ServiceException ''No redirect on "tinyurl redirect" page on HTTP status 200'')
      | Some g \<Rightarrow>
          (case unescape_utf8 lib g of Inl e \<Rightarrow> Inl e | Inr u \<Rightarrow> Inr (PStr u)))\<close>

definition Tinyurl_fetch_200 :: "pylib \<Rightarrow> http_inst \<Rightarrow> net \<Rightarrow> string \<Rightarrow> result" where
  \<open>Tinyurl_fetch_200 lib inst nw code =
     (case http_get Tinyurl_class inst nw code of
        Inl e \<Rightarrow> Inl e
      | Inr (r2, data) \<Rightarrow>
          if status r2 \<noteq> 200 then Inl (status_changed ''200'' (status r2))
          else if str_in ''<title>Redirecting...</title>'' data then
            Tinyurl_parse_errorhelp lib code data
          else if str_in ''Error: TinyURL redirects to a TinyURL.'' data then
            Tinyurl_parse_tinyurl_redirect lib data
          else Inl (ServiceException ''Unexpected response on status 200''))\<close>

text \<open>\<^verbatim>\<open>query["out"]\<close> raises \<^verbatim>\<open>KeyError\<close> when the query has no \<^verbatim>\<open>out\<close>.\<close>

definition Tinyurl_scrub_url :: "pylib \<Rightarrow> string \<Rightarrow> string \<Rightarrow> result" where
  "Tinyurl_scrub_url lib code u =
     (case urlparse lib u of
        None \<Rightarrow> Inl (ValueError ''Invalid IPv6 URL'')
      | Some parsed_url \<Rightarrow>
          if hostname parsed_url = Some ''redirect.tinyurl.com''
             \<and> upath parsed_url = ''/api/click''
          then
            (case parse_qs lib (uquery parsed_url) ''out'' of
               None \<Rightarrow> Inl (KeyError ''out'')
             | Some [] \<Rightarrow> Inr (PStr u)
             | Some (v # vs) \<Rightarrow> Inr (PStr v))
          else Inr (PStr u))"

definition Tinyurl_preview :: "pylib \<Rightarrow> http_inst \<Rightarrow> net \<Rightarrow> string \<Rightarrow> string \<Rightarrow> result" where
  \<open>Tinyurl_preview lib inst nw code affiliate_url =
     (case http_get Tinyurl_class inst nw (''preview.php?num='' @ code) of
        Inl e \<Rightarrow> Inl e
      | Inr (r2, data) \<Rightarrow>
          if status r2 \<noteq> 200 then
            Inl (ServiceException
              (''Unexpected HTTP status '' @ str_int (status r2) @ '' on preview page''))
          else
            (case re_search lib ''<a id="redirecturl" href="(.*?)">Proceed to this site.</a>''
                True data of
               None \<Rightarrow> Inl (ServiceException ''No redirect on preview page'')
             | Some g \<Rightarrow>
                 (case decode_utf8 lib g of
                    None \<Rightarrow> Inl UnicodeDecodeError
                  | Some u \<Rightarrow>
                      if u = [] then Tinyurl_scrub_url lib code affiliate_url
                      else Inr (PStr (encode_utf8 lib (html_unescape lib u))))))\<close>

definition Tinyurl_fetch :: "pylib \<Rightarrow> http_inst \<Rightarrow> net \<Rightarrow> string \<Rightarrow> result" where
  "Tinyurl_fetch lib inst nw code =
     (case http_head Tinyurl_class inst nw code of
        Inl e \<Rightarrow> Inl e
      | Inr r \<Rightarrow>
          if status r = 200 then Tinyurl_fetch_200 lib inst nw code
          else if status r = 301 then
            (case getheader r ''Location'' of
               None \<Rightarrow>
                 Inl (CodeBlockedException (Some ''No Location header after HTTP status 301''))
             | Some location \<Rightarrow>
                 if location = [] then
                   Inl (CodeBlockedException (Some ''No Location header after HTTP status 301''))
                 else
                   (case getheader r ''X-tiny'' of
                      None \<Rightarrow> Inr (PStr location)
                    | Some tiny \<Rightarrow>
                        if tiny \<noteq> [] \<and> take 3 tiny = ''aff''
                        then Tinyurl_preview lib inst nw code location
                        else Inr (PStr location)))
          else if status r = 302 then Inl (CodeBlockedException None)
          else if status r = 404 then Inl (NoRedirectException None)
          else if status r = 500 then Inl (ServiceException ''HTTP status 500'')
          else Inl (ServiceException (''Unknown HTTP status '' @ str_int (status r))))"

section \<open>Ur1ca, Postly, Wpme, Twitter\<close>

definition Ur1ca_class :: simple_class where
  "Ur1ca_class =
     \<lparr>charset = ''0123456789abcdefghijklmnopqrstuvwxyz'', rate_limit = None,
      url = ''http://ur1.ca/'', http_headers = Map.empty, http_keepalive = True,
      http_status_redirect = [301, 302], http_status_no_redirect = [200],
      http_status_code_blocked = [410], http_status_blocked = [403, 420, 429]\<rparr>"

definition Postly_class :: simple_class where
  "Postly_class =
     \<lparr>charset = ''0123456789abcdefghijklmnopqrstuvwxyzABCDEFGHIJKLMNOPQRSTUVWXYZ'',
      rate_limit = None, url = ''https://post.ly/'', http_headers = Map.empty,
      http_keepalive = True,
      http_status_redirect = [301], http_status_no_redirect = [302],
      http_status_code_blocked = [410], http_status_blocked = [403, 420, 429]\<rparr>"

definition Wpme_class :: simple_class where
  "Wpme_class =
     \<lparr>charset = ''0123456789abcdefghijklmnopqrstuvwxyzABCDEFGHIJKLMNOPQRSTUVWXYZ-_'',
      rate_limit = Some (2, 1), url = ''http://wp.me/'', http_headers = Map.empty,
      http_keepalive = True,
      http_status_redirect = [301, 302], http_status_no_redirect = [404],
      http_status_code_blocked = [410], http_status_blocked = [403, 420, 429]\<rparr>"

definition Twitter_class :: simple_class where
  "Twitter_class =
     \<lparr>charset = ''0123456789abcdefghijklmnopqrstuvwxyzABCDEFGHIJKLMNOPQRSTUVWXYZ'',
      rate_limit = Some (20, 1), url = ''http://t.co/'', http_headers = Map.empty,
      http_keepalive = False,
      http_status_redirect = [301, 302], http_status_no_redirect = [404],
      http_status_code_blocked = [410], http_status_blocked = [403, 420, 429]\<rparr>"

section \<open>Snipurl\<close>

definition Snipurl_class :: simple_class where
  "Snipurl_class =
     \<lparr>charset = ''0123456789abcdefghijklmnopqrstuvwxyz-_~'', rate_limit = Some (2, 1),
      url = ''http://snipurl.com'', http_headers = Map.empty, http_keepalive = False,
      http_status_redirect = [301, 302], http_status_no_redirect = [410],
      http_status_code_blocked = [410], http_status_blocked = [403, 420, 429]\<rparr>"

definition Snipurl_unexpected_http_status ::
  "pylib \<Rightarrow> 'a http_class_scheme \<Rightarrow> http_inst \<Rightarrow> net \<Rightarrow> string \<Rightarrow> resp \<Rightarrow> result" where
  \<open>Snipurl_unexpected_http_status lib cls inst nw code r =
     (if status r \<noteq> 500 then SimpleService_unexpected_http_status code r
      else
        (case http_get cls inst nw code of
           Inl e \<Rightarrow> Inl e
         | Inr (r2, data) \<Rightarrow>
             if status r2 \<noteq> 500 then Inl (status_changed ''500'' (status r2))
             else
               (case re_search lib
                  ''<p>You clicked on a snipped URL, which will take you to the following looong URL: </p> <div class="quote"><span class="quotet"></span><br/>(.*?)</div> <br />''
                  False data of
                  None \<Rightarrow> Inl (ServiceException ''Could not find target URL on preview page'')
                | Some g \<Rightarrow>
                    (case unescape_utf8 lib g of Inl e \<Rightarrow> Inl e | Inr u \<Rightarrow> Inr (PStr u)))))\<close>

text \<open>
  \<^verbatim>\<open>Snipurl.fetch\<close>: \<^verbatim>\<open>location.decode("ascii")\<close> raises \<^verbatim>\<open>UnicodeDecodeError\<close>, which is
  caught, on a byte above 127, and \<^verbatim>\<open>AttributeError\<close> on a value that is not a string.
\<close>

definition Snipurl_fetch :: "pylib \<Rightarrow> http_inst \<Rightarrow> net \<Rightarrow> string \<Rightarrow> result" where
  "Snipurl_fetch lib inst nw code =
     (case SimpleService_fetch Snipurl_class inst
             (Snipurl_unexpected_http_status lib Snipurl_class inst nw) nw code of
        Inl e \<Rightarrow> Inl e
      | Inr (PStr location) \<Rightarrow>
          if is_ascii location \<and> location = ''/site/getprivate?snip='' @ code
          then Inl (CodeBlockedException (Some ''Private key required''))
          else Inr (PStr location)
      | Inr v \<Rightarrow> Inl AttributeError)"

section \<open>Googl\<close>

definition Googl_class :: service_class where
  "Googl_class =
     \<lparr>charset = ''0123456789abcdefghijklmnopqrstuvwxyzABCDEFGHIJKLMNOPQRSTUVWXYZ'',
      rate_limit = Some (1, 5)\<rparr>"

definition Googl_parse_json :: "pylib \<Rightarrow> string \<Rightarrow> result" where
  "Googl_parse_json lib body =
     (case json_loads lib body of
        None \<Rightarrow> Inl (ServiceException ''Could not decode response'')
      | Some data \<Rightarrow>
          (case py_contains ''kind'' data of
             Inl e \<Rightarrow> Inl e
           | Inr has_kind \<Rightarrow>
               if has_kind then
                 (case py_getitem data ''kind'' of
                    Inl e \<Rightarrow> Inl e
                  | Inr kind \<Rightarrow>
                      if kind = PStr ''urlshortener#url'' then
                        (case py_contains ''status'' data of
                           Inl e \<Rightarrow> Inl e
                         | Inr has_status \<Rightarrow>
                             if has_status then
                               (case py_contains ''longUrl'' data of
                                  Inl e \<Rightarrow> Inl e
                                | Inr has_url \<Rightarrow>
                                    if has_url then py_getitem data ''longUrl''
                                    else
                                      (case py_getitem data ''status'' of
                                         Inl e \<Rightarrow> Inl e
                                       | Inr st \<Rightarrow>
                                           Inl (CodeBlockedException
                                             (Some (''Status: '' @ format_s lib st)))))
                             else Inl (ServiceException ''No status given''))
                      else Inl (ServiceException ''No/bad type given''))
               else Inl (ServiceException ''No/bad type given'')))"

definition googl_request :: "string \<Rightarrow> request" where
  "googl_request code =
     \<lparr>rmethod = ''GET'', rpath = ''/urlshortener/v1/url?shortUrl=http://goo.gl/'' @ code,
      rheaders = Map.empty\<rparr>"

definition Googl_fetch :: "pylib \<Rightarrow> net \<Rightarrow> string \<Rightarrow> result" where
  "Googl_fetch lib nw code =
     (case exchange nw (googl_request code) of
        Inl e \<Rightarrow> Inl e
      | Inr (r, data) \<Rightarrow>
          if status r = 200 then Googl_parse_json lib data
          else if status r = 403 then Inl (BlockedException None)
          else if status r = 404 then Inl (NoRedirectException None)
          else Inl (ServiceException (''Unexpected HTTP status '' @ str_int (status r))))"

section \<open>Trimnew, Pixorial and Trim\<close>

definition Trimnew_class :: simple_class where
  "Trimnew_class =
     \<lparr>charset = ''0123456789abcdefghijklmnopqrstuvwxyz'', rate_limit = Some (2, 1),
      url = ''http://tr.im/'', http_headers = Map.empty, http_keepalive = True,
      http_status_redirect = [301], http_status_no_redirect = [],
      http_status_code_blocked = [], http_status_blocked = [404]\<rparr>"

definition Trimnew_fetch :: "http_inst \<Rightarrow> net \<Rightarrow> string \<Rightarrow> result" where
  "Trimnew_fetch inst nw code =
     (if code = ''500'' then Inl (CodeBlockedException None)
      else
        (case SimpleService_fetch Trimnew_class inst SimpleService_unexpected_http_status
                nw code of
           Inl e \<Rightarrow> Inl e
         | Inr u \<Rightarrow>
             if u = PStr ''http://tr.im/404'' then Inl (NoRedirectException None)
             else Inr u))"

definition Pixorial_class :: simple_class where
  "Pixorial_class =
     \<lparr>charset = ''0123456789abcdefghijklmnopqrstuvwxyz'', rate_limit = Some (20, 1),
      url = ''http://myhub.pixorial.com/s/'', http_headers = Map.empty,
      http_keepalive = False,
      http_status_redirect = [301, 302], http_status_no_redirect = [404],
      http_status_code_blocked = [410], http_status_blocked = [403, 420, 429]\<rparr>"

definition Pixorial_fetch :: "http_inst \<Rightarrow> net \<Rightarrow> string \<Rightarrow> result" where
  "Pixorial_fetch inst nw code =
     (case http_head Pixorial_class inst nw code of
        Inl e \<Rightarrow> Inl e
      | Inr r \<Rightarrow>
          if status r \<in> set (http_status_redirect Pixorial_class) then
            (case getheader r ''Location'' of
               None \<Rightarrow> Inl (ServiceException ''No Location header after HTTP status 301'')
             | Some location \<Rightarrow>
                 if location = ''http://myhub.pixorial.com/'' then
                   Inl (NoRedirectException (Some ''Redirected to home page''))
                 else if location = [] then
                   Inl (ServiceException ''No Location header after HTTP status 301'')
                 else Inr (PStr location))
          else if status r \<in> set (http_status_no_redirect Pixorial_class) then
            Inl (NoRedirectException None)
          else if status r \<in> set (http_status_code_blocked Pixorial_class) then
            Inl (CodeBlockedException None)
          else if status r \<in> set (http_status_blocked Pixorial_class) then
            Inl (BlockedException None)
          else SimpleService_unexpected_http_status code r)"

definition Trim_class :: simple_class where
  "Trim_class =
     \<lparr>charset = ''0123456789abcdefghijklmnopqrstuvwxyz'', rate_limit = Some (20, 1),
      url = ''http://tr.im/'', http_headers = Map.empty, http_keepalive = True,
      http_status_redirect = [301, 302], http_status_no_redirect = [404],
      http_status_code_blocked = [410], http_status_blocked = [403, 420, 429]\<rparr>"

definition Trim_fetch :: "http_inst \<Rightarrow> net \<Rightarrow> string \<Rightarrow> result" where
  "Trim_fetch inst nw code =
     (case http_head Trim_class inst nw code of
        Inl e \<Rightarrow> Inl e
      | Inr r \<Rightarrow>
          if status r \<in> set (http_status_redirect Trim_class) then
            (case getheader r ''Location'' of
               None \<Rightarrow> Inl (ServiceException ''No Location header after HTTP status 301'')
             | Some location \<Rightarrow>
                 if code \<noteq> ''404'' \<and> location = ''http://tr.im/404'' then
                   Inl (NoRedirectException (Some ''Redirected to 404 page''))
                 else if location = [] then
                   Inl (ServiceException ''No Location header after HTTP status 301'')
                 else Inr (PStr location))
          else if status r \<in> set (http_status_no_redirect Trim_class) then
            Inl (NoRedirectException None)
          else if status r \<in> set (http_status_code_blocked Trim_class) then
            Inl (CodeBlockedException None)
          else if status r \<in> set (http_status_blocked Trim_class) then
            Inl (BlockedException None)
          else SimpleService_unexpected_http_status code r)"

section \<open>BaseVisibliService, VisibliHex and Visibli\<close>

definition Visibli_headers :: "string \<rightharpoonup> string" where
  "Visibli_headers =
     [''User-Agent'' \<mapsto>
        ''Mozilla/5.0 (Macintosh; Intel Mac OS X 10.8.3) Gecko/20120431 Firefox/18.0'']"

definition VisibliHex_class :: simple_class where
  "VisibliHex_class =
     \<lparr>charset = ''0123456789abcdef'', rate_limit = Some (1, 5),
      url = ''http://links.sharedby.co/links/'', http_headers = Visibli_headers,
      http_keepalive = True,
      http_status_redirect = [301], http_status_no_redirect = [],
      http_status_code_blocked = [410], http_status_blocked = [403, 420, 429]\<rparr>"

definition Visibli_class :: simple_class where
  "Visibli_class =
     \<lparr>charset = ''0123456789abcdefghijklmnopqrstuvwxyzABCDEFGHIJKLMNOPQRSTUVWXYZ'',
      rate_limit = Some (1, 5), url = ''http://sharedby.co/'',
      http_headers = Visibli_headers, http_keepalive = True,
      http_status_redirect = [301], http_status_no_redirect = [],
      http_status_code_blocked = [410], http_status_blocked = [403, 420, 429]\<rparr>"

text \<open>
  \<^verbatim>\<open>BaseVisibliService.unexpected_http_status\<close>. On a status other than 302 and 200 the
  method evaluates \<^verbatim>\<open>super(BaseVisbliService, self)\<close>; no such name is defined in the
  module, so the evaluation raises \<^verbatim>\<open>NameError\<close>. On 302 it returns the header as it is,
  also when there is none.
\<close>

definition BaseVisibliService_unexpected_http_status ::
  "pylib \<Rightarrow> 'a http_class_scheme \<Rightarrow> http_inst \<Rightarrow> net \<Rightarrow> string \<Rightarrow> resp \<Rightarrow> result" where
  \<open>BaseVisibliService_unexpected_http_status lib cls inst nw code r =
     (if status r = 302 then
        (case getheader r ''Location'' of
           None \<Rightarrow> Inr PNone
         | Some location \<Rightarrow>
             if location \<noteq> [] \<and> (str_in ''sharedby'' location \<or> str_in ''visibli'' location)
             then Inl (NoRedirectException None)
             else if location \<noteq> [] \<and> startswith location ''http://yahoo.com'' then
               Inl (BlockedException (Some (''Banned (location='' @ location @ '')'')))
             else Inr (PStr location))
      else if status r \<noteq> 200 then Inl (NameError ''BaseVisbliService'')
      else
        (case http_get cls inst nw code of
           Inl e \<Rightarrow> Inl e
         | Inr (r2, data) \<Rightarrow>
             if status r2 \<noteq> 200 then Inl (status_changed ''200'' (status r2))
             else
               (case re_search lib ''<iframe id="[^"]+" src="([^"]+)">'' False data of
                  None \<Rightarrow>
                    if str_in ''Undefined index:  HTTP_USER_AGENT'' data then
                      Inl (ServiceException ''Website broken about user-agent'')
                    else Inl (ServiceException ''No iframe url found'')
                | Some g \<Rightarrow>
                    (case unescape_utf8 lib g of Inl e \<Rightarrow> Inl e | Inr u \<Rightarrow> Inr (PStr u)))))\<close>

definition VisibliHex_fetch :: "pylib \<Rightarrow> http_inst \<Rightarrow> net \<Rightarrow> string \<Rightarrow> result" where
  "VisibliHex_fetch lib inst nw code =
     SimpleService_fetch VisibliHex_class inst
       (BaseVisibliService_unexpected_http_status lib VisibliHex_class inst nw) nw code"

definition Visibli_fetch :: "pylib \<Rightarrow> http_inst \<Rightarrow> net \<Rightarrow> string \<Rightarrow> result" where
  "Visibli_fetch lib inst nw code =
     SimpleService_fetch Visibli_class inst
       (BaseVisibliService_unexpected_http_status lib Visibli_class inst nw) nw code"

section \<open>Example environments\<close>

text \<open>
  Concrete responses, networks and instances on which the model is evaluated below.
  \<open>head_get_net\<close> answers every \<^verbatim>\<open>HEAD\<close> request with its first argument and every other
  request with its second.
\<close>

definition mk_resp :: "int \<Rightarrow> string \<Rightarrow> (string \<times> string) list \<Rightarrow> resp" where
  "mk_resp s rsn hdrs = \<lparr>status = s, reason = rsn, getheader = map_of hdrs\<rparr>"

definition head_get_net :: "xresult \<Rightarrow> xresult \<Rightarrow> net" where
  "head_get_net h g = (\<lambda>rq. if rmethod rq = ''HEAD'' then h else g)"

definition inst0 :: http_inst where
  "inst0 = \<lparr>ipath = ''/'', ihostname = ''example.org''\<rparr>"

text \<open>
  The library at the arguments that the examples below pass to it, with the values that
  Python 2.7 computes there: \<^verbatim>\<open>urlparse\<close> of the two URLs, \<^verbatim>\<open>parse_qs\<close> of the query of
  the second, \<^verbatim>\<open>json.loads("1")\<close>, the search for the link of \<open>preview_page\<close>, and the
  decoding, unescaping and encoding of that link (ASCII, without \<^verbatim>\<open>&\<close>). The examples
  evaluate the library nowhere else; the other values of \<open>lib0\<close> are arbitrary, and so is
  the order in which its \<^verbatim>\<open>urlencode\<close> lists the parameters.
\<close>

definition warning_url :: string where
  "warning_url = ''http://bit.ly/a/warning?url=http%3A%2F%2Fexample.org%2F&hash=abc''"

definition preview_page :: string where
  \<open>preview_page = ''<a id="redirecturl" href="http://example.org/">Proceed to this site.</a>''\<close>

definition lib0 :: pylib where
  \<open>lib0 =
     \<lparr>urlparse = (\<lambda>u.
        if u = ''http://vbly.us/yourls-api.php'' then
          Some \<lparr>scheme = ''http'', netloc = ''vbly.us'', upath = ''/yourls-api.php'',
                uquery = [], hostname = Some ''vbly.us''\<rparr>
        else if u = warning_url then
          Some \<lparr>scheme = ''http'', netloc = ''bit.ly'', upath = ''/a/warning'',
                uquery = ''url=http%3A%2F%2Fexample.org%2F&hash=abc'',
                hostname = Some ''bit.ly''\<rparr>
        else None),
      parse_qs = (\<lambda>q.
        if q = ''url=http%3A%2F%2Fexample.org%2F&hash=abc'' then
          [''url'' \<mapsto> [''http://example.org/''], ''hash'' \<mapsto> [''abc'']]
        else Map.empty),
      urlencode = (\<lambda>ps.
        if ps = [(''action'', ''expand''), (''shorturl'', ''abc''), (''format'', ''simple'')]
        then ''action=expand&shorturl=abc&format=simple'' else []),
      json_loads = (\<lambda>b.
        if b = ''1'' then Some (PInt 1) else None),
      re_search = (\<lambda>pat dotall data.
        if pat = ''<a id="redirecturl" href="(.*?)">Proceed to this site.</a>'' \<and> dotall
           \<and> data = preview_page
        then Some ''http://example.org/'' else None),
      decode_utf8 = (\<lambda>b. if b = ''http://example.org/'' then Some b else None),
      encode_utf8 = (\<lambda>u. u),
      html_unescape = (\<lambda>u. u),
      format_s = (\<lambda>v. case v of PStr s \<Rightarrow> s | _ \<Rightarrow> []),
      python_version = (2, 7),
      hostport_ok = (\<lambda>h. h = ''vbly.us'')\<rparr>\<close>

definition vbly_inst :: yourls_inst where
  "vbly_inst =
     \<lparr>ypath = ''/yourls-api.php'',
      yconn = \<lparr>klass = HTTPConnection, chost = ''vbly.us'', ctimeout = Some 30\<rparr>\<rparr>"

text \<open>A response to the first (\<^verbatim>\<open>HEAD\<close>) request only, and to a single \<^verbatim>\<open>GET\<close> only.\<close>

definition head_net :: "resp \<Rightarrow> net" where
  "head_net r = head_get_net (Response r []) (SocketError ''no second request'')"

definition get_net :: "resp \<Rightarrow> string \<Rightarrow> net" where
  "get_net r body = head_get_net (SocketError ''no HEAD request'') (Response r body)"

section \<open>Properties\<close>

subsection \<open>Exchanges\<close>

lemma http_head_Response:
  "nw (http_request cls inst code ''HEAD'') = Response r d \<Longrightarrow> http_head cls inst nw code = Inr r"
  by (simp add: http_head_def http_fetch_def exchange_def)

lemma http_get_Response:
  "nw (http_request cls inst code ''GET'') = Response r d \<Longrightarrow> http_get cls inst nw code = Inr (r, d)"
  by (simp add: http_get_def http_fetch_def exchange_def)

subsection \<open>The generic dispatcher\<close>

text \<open>
  Claim C1. \<^verbatim>\<open>SimpleService.fetch\<close>, for any status table and any hook: when the status of
  the response is in the redirect set and the response carries a non-empty \<^verbatim>\<open>Location\<close>,
  the call returns that location, a \<open>LongURL\<close>; when the header is absent or empty,
  the call raises \<^verbatim>\<open>ServiceException\<close>, and the outcome is not \<open>NoRedirect\<close>.
\<close>

theorem SimpleService_fetch_redirect:
  assumes "nw (http_request cls inst code ''HEAD'') = Response r d"
    and "status r \<in> set (http_status_redirect cls)"
  shows "(\<forall>l. getheader r ''Location'' = Some l \<and> l \<noteq> [] \<longrightarrow>
            SimpleService_fetch cls inst hook nw code = Inr (PStr l)
            \<and> outcome_of (SimpleService_fetch cls inst hook nw code) = Some (LongURL l))
       \<and> (getheader r ''Location'' = None \<or> getheader r ''Location'' = Some [] \<longrightarrow>
            is_ServiceError (SimpleService_fetch cls inst hook nw code)
            \<and> outcome_of (SimpleService_fetch cls inst hook nw code) \<noteq> Some NoRedirect)"
  using assms by (auto simp: SimpleService_fetch_def http_head_Response)

theorem SimpleService_fetch_redirect_witness:
  "outcome_of (SimpleService_fetch Wpme_class inst0 SimpleService_unexpected_http_status
      (head_net (mk_resp 301 ''Moved Permanently'' [(''Location'', ''http://example.org/x'')]))
      ''abc'') = Some (LongURL ''http://example.org/x'')
   \<and> is_ServiceError (SimpleService_fetch Wpme_class inst0 SimpleService_unexpected_http_status
      (head_net (mk_resp 302 ''Found'' [])) ''abc'')"
  using SimpleService_fetch_redirect [of
      "head_net (mk_resp 301 ''Moved Permanently'' [(''Location'', ''http://example.org/x'')])"
      Wpme_class inst0 "''abc''"
      "mk_resp 301 ''Moved Permanently'' [(''Location'', ''http://example.org/x'')]" "[]"
      SimpleService_unexpected_http_status]
    SimpleService_fetch_redirect [of
      "head_net (mk_resp 302 ''Found'' [])"
      Wpme_class inst0 "''abc''" "mk_resp 302 ''Found'' []" "[]"
      SimpleService_unexpected_http_status]
  by (simp add: head_net_def head_get_net_def http_request_def mk_resp_def Wpme_class_def)

subsection \<open>The Yourls client\<close>

text \<open>
  Claim C3. \<^verbatim>\<open>YourlsService.fetch\<close>, when the exchange gives a response: status 200 and
  the body \<^verbatim>\<open>not found\<close> is \<open>NoRedirect\<close>; status 200 and any other body is the
  \<open>LongURL\<close> of that body, unchanged; any other status is a \<open>ServiceError\<close>.
\<close>

theorem YourlsService_fetch_classifies:
  assumes "nw (yourls_request lib inst code) = Response r data"
  shows "(status r = 200 \<and> data = ''not found'' \<longrightarrow>
            outcome_of (YourlsService_fetch lib inst nw code) = Some NoRedirect)
       \<and> (status r = 200 \<and> data \<noteq> ''not found'' \<longrightarrow>
            YourlsService_fetch lib inst nw code = Inr (PStr data)
            \<and> outcome_of (YourlsService_fetch lib inst nw code) = Some (LongURL data))
       \<and> (status r \<noteq> 200 \<longrightarrow> is_ServiceError (YourlsService_fetch lib inst nw code))"
  using assms by (simp add: YourlsService_fetch_def exchange_def)

theorem YourlsService_fetch_classifies_witness:
  "outcome_of (YourlsService_fetch lib0 vbly_inst
      (get_net (mk_resp 200 ''OK'' []) ''not found'') ''abc'')
     = Some NoRedirect
   \<and> outcome_of (YourlsService_fetch lib0 vbly_inst
      (get_net (mk_resp 200 ''OK'' []) ''http://long.example/path'') ''abc'')
     = Some (LongURL ''http://long.example/path'')
   \<and> is_ServiceError (YourlsService_fetch lib0 vbly_inst
      (get_net (mk_resp 500 ''Internal Server Error'' []) ''oops'') ''abc'')"
  using YourlsService_fetch_classifies [of
      "get_net (mk_resp 200 ''OK'' []) ''not found''"
      lib0 vbly_inst "''abc''" "mk_resp 200 ''OK'' []" "''not found''"]
    YourlsService_fetch_classifies [of
      "get_net (mk_resp 200 ''OK'' []) ''http://long.example/path''"
      lib0 vbly_inst "''abc''" "mk_resp 200 ''OK'' []" "''http://long.example/path''"]
    YourlsService_fetch_classifies [of
      "get_net (mk_resp 500 ''Internal Server Error'' []) ''oops''"
      lib0 vbly_inst "''abc''" "mk_resp 500 ''Internal Server Error'' []" "''oops''"]
  by (simp add: get_net_def head_get_net_def yourls_request_def mk_resp_def)

subsection \<open>Bitly\<close>



text \<open>
  Claim C7. \<^verbatim>\<open>Bitly.fetch\<close> on status 301 with a non-empty \<^verbatim>\<open>Location\<close>: the reason
  phrase \<^verbatim>\<open>Moved\<close> gives the \<open>LongURL\<close> of the location, the reason phrase
  \<^verbatim>\<open>Moved Permanently\<close> gives \<open>CodeBlocked\<close>, and any other reason phrase gives a
  \<open>ServiceError\<close>.
\<close>

theorem Bitly_fetch_301_reason:
  assumes "nw (http_request Bitly_class inst code ''HEAD'') = Response r d"
    and "status r = 301" and "getheader r ''Location'' = Some l" and "l \<noteq> []"
  shows "(reason r = ''Moved'' \<longrightarrow>
            outcome_of (Bitly_fetch lib inst nw code) = Some (LongURL l))
       \<and> (reason r = ''Moved Permanently'' \<longrightarrow>
            outcome_of (Bitly_fetch lib inst nw code) = Some (CodeBlocked None))
       \<and> (reason r \<noteq> ''Moved'' \<and> reason r \<noteq> ''Moved Permanently'' \<longrightarrow>
            is_ServiceError (Bitly_fetch lib inst nw code))"
  using assms by (simp add: Bitly_fetch_def http_head_Response)

theorem Bitly_fetch_301_reason_witness:
  "outcome_of (Bitly_fetch lib0 inst0
      (head_net (mk_resp 301 ''Moved'' [(''Location'', ''http://example.org/x'')])) ''abc'')
     = Some (LongURL ''http://example.org/x'')
   \<and> outcome_of (Bitly_fetch lib0 inst0
      (head_net (mk_resp 301 ''Moved Permanently'' [(''Location'', ''http://example.org/x'')])) ''abc'')
     = Some (CodeBlocked None)
   \<and> is_ServiceError (Bitly_fetch lib0 inst0
      (head_net (mk_resp 301 ''Gone Fishing'' [(''Location'', ''http://example.org/x'')])) ''abc'')"
  using Bitly_fetch_301_reason [of
      "head_net (mk_resp 301 ''Moved'' [(''Location'', ''http://example.org/x'')])"
      inst0 "''abc''" "mk_resp 301 ''Moved'' [(''Location'', ''http://example.org/x'')]" "[]"
      "''http://example.org/x''" lib0]
    Bitly_fetch_301_reason [of
      "head_net (mk_resp 301 ''Moved Permanently'' [(''Location'', ''http://example.org/x'')])"
      inst0 "''abc''" "mk_resp 301 ''Moved Permanently'' [(''Location'', ''http://example.org/x'')]" "[]"
      "''http://example.org/x''" lib0]
    Bitly_fetch_301_reason [of
      "head_net (mk_resp 301 ''Gone Fishing'' [(''Location'', ''http://example.org/x'')])"
      inst0 "''abc''" "mk_resp 301 ''Gone Fishing'' [(''Location'', ''http://example.org/x'')]" "[]"
      "''http://example.org/x''" lib0]
  by (simp add: head_net_def head_get_net_def http_request_def mk_resp_def)



subsection \<open>The second exchange\<close>

lemma is_ServiceError_status_changed: "is_ServiceError (Inl (status_changed f s))"
  by (simp add: status_changed_def)

lemma Isgd_fetch_changed:
  assumes "nw (http_request Isgd_class inst code ''HEAD'') = Response r1 d1"
    and "nw (http_request Isgd_class inst code ''GET'') = Response r2 d2"
    and "status r1 = 200" and "status r2 \<noteq> status r1"
  shows "Isgd_fetch lib inst nw code = Inl (status_changed ''200'' (status r2))"
  using assms
  by (simp add: Isgd_fetch_def SimpleService_fetch_def Isgd_unexpected_http_status_def
      http_head_Response http_get_Response Isgd_class_def)

lemma Owly_fetch_changed:
  assumes "nw (http_request Owly_class inst code ''HEAD'') = Response r1 d1"
    and "nw (http_request Owly_class inst code ''GET'') = Response r2 d2"
    and "status r1 = 200" and "status r2 \<noteq> status r1"
  shows "Owly_fetch lib inst nw code = Inl (status_changed ''200'' (status r2))"
  using assms
  by (simp add: Owly_fetch_def SimpleService_fetch_def Owly_unexpected_http_status_def
      http_head_Response http_get_Response Owly_class_def)

lemma Tinyurl_fetch_changed:
  assumes "nw (http_request Tinyurl_class inst code ''HEAD'') = Response r1 d1"
    and "nw (http_request Tinyurl_class inst code ''GET'') = Response r2 d2"
    and "status r1 = 200" and "status r2 \<noteq> status r1"
  shows "Tinyurl_fetch lib inst nw code = Inl (status_changed ''200'' (status r2))"
  using assms
  by (simp add: Tinyurl_fetch_def Tinyurl_fetch_200_def
      http_head_Response http_get_Response)

lemma Snipurl_fetch_changed:
  assumes "nw (http_request Snipurl_class inst code ''HEAD'') = Response r1 d1"
    and "nw (http_request Snipurl_class inst code ''GET'') = Response r2 d2"
    and "status r1 = 500" and "status r2 \<noteq> status r1"
  shows "Snipurl_fetch lib inst nw code = Inl (status_changed ''500'' (status r2))"
  using assms
  by (simp add: Snipurl_fetch_def SimpleService_fetch_def Snipurl_unexpected_http_status_def
      http_head_Response http_get_Response Snipurl_class_def)

lemma Visibli_fetch_changed:
  assumes "nw (http_request Visibli_class inst code ''HEAD'') = Response r1 d1"
    and "nw (http_request Visibli_class inst code ''GET'') = Response r2 d2"
    and "status r1 = 200" and "status r2 \<noteq> status r1"
  shows "Visibli_fetch lib inst nw code = Inl (status_changed ''200'' (status r2))"
  using assms
  by (simp add: Visibli_fetch_def SimpleService_fetch_def
      BaseVisibliService_unexpected_http_status_def
      http_head_Response http_get_Response Visibli_class_def)

lemma VisibliHex_fetch_changed:
  assumes "nw (http_request VisibliHex_class inst code ''HEAD'') = Response r1 d1"
    and "nw (http_request VisibliHex_class inst code ''GET'') = Response r2 d2"
    and "status r1 = 200" and "status r2 \<noteq> status r1"
  shows "VisibliHex_fetch lib inst nw code = Inl (status_changed ''200'' (status r2))"
  using assms
  by (simp add: VisibliHex_fetch_def SimpleService_fetch_def
      BaseVisibliService_unexpected_http_status_def
      http_head_Response http_get_Response VisibliHex_class_def)

text \<open>
  Claim C4, as amended. In the paths that fetch the same code a second time with \<^verbatim>\<open>GET\<close>
  (\<^verbatim>\<open>Isgd\<close>, \<^verbatim>\<open>Owly\<close>, \<^verbatim>\<open>Visibli\<close> and \<^verbatim>\<open>VisibliHex\<close> after a first status 200,
  \<^verbatim>\<open>Tinyurl._fetch_200\<close> after a first status 200, \<^verbatim>\<open>Snipurl\<close> after a first status 500):
  when the status of the second response differs from the status of the first, \<^verbatim>\<open>fetch\<close>
  raises the \<^verbatim>\<open>ServiceException\<close> whose message names the two statuses, whatever the
  second body and the library are. The preview path of \<^verbatim>\<open>Tinyurl\<close> is not among them: see
  the counterexample below.
\<close>

theorem second_exchange_status_changed:
  assumes "status r2 \<noteq> status r1"
  shows "(nw (http_request Isgd_class inst code ''HEAD'') = Response r1 d1
            \<and> nw (http_request Isgd_class inst code ''GET'') = Response r2 d2
            \<and> status r1 = 200 \<longrightarrow>
            Isgd_fetch lib inst nw code = Inl (status_changed ''200'' (status r2)))
       \<and> (nw (http_request Owly_class inst code ''HEAD'') = Response r1 d1
            \<and> nw (http_request Owly_class inst code ''GET'') = Response r2 d2
            \<and> status r1 = 200 \<longrightarrow>
            Owly_fetch lib inst nw code = Inl (status_changed ''200'' (status r2)))
       \<and> (nw (http_request Tinyurl_class inst code ''HEAD'') = Response r1 d1
            \<and> nw (http_request Tinyurl_class inst code ''GET'') = Response r2 d2
            \<and> status r1 = 200 \<longrightarrow>
            Tinyurl_fetch lib inst nw code = Inl (status_changed ''200'' (status r2)))
       \<and> (nw (http_request Snipurl_class inst code ''HEAD'') = Response r1 d1
            \<and> nw (http_request Snipurl_class inst code ''GET'') = Response r2 d2
            \<and> status r1 = 500 \<longrightarrow>
            Snipurl_fetch lib inst nw code = Inl (status_changed ''500'' (status r2)))
       \<and> (nw (http_request Visibli_class inst code ''HEAD'') = Response r1 d1
            \<and> nw (http_request Visibli_class inst code ''GET'') = Response r2 d2
            \<and> status r1 = 200 \<longrightarrow>
            Visibli_fetch lib inst nw code = Inl (status_changed ''200'' (status r2)))
       \<and> (nw (http_request VisibliHex_class inst code ''HEAD'') = Response r1 d1
            \<and> nw (http_request VisibliHex_class inst code ''GET'') = Response r2 d2
            \<and> status r1 = 200 \<longrightarrow>
            VisibliHex_fetch lib inst nw code = Inl (status_changed ''200'' (status r2)))
       \<and> is_ServiceError (Inl (status_changed ''200'' (status r2)))
       \<and> is_ServiceError (Inl (status_changed ''500'' (status r2)))"
  using assms Isgd_fetch_changed [of nw inst code r1 d1 r2 d2 lib]
    Owly_fetch_changed [of nw inst code r1 d1 r2 d2 lib]
    Tinyurl_fetch_changed [of nw inst code r1 d1 r2 d2 lib]
    Snipurl_fetch_changed [of nw inst code r1 d1 r2 d2 lib]
    Visibli_fetch_changed [of nw inst code r1 d1 r2 d2 lib]
    VisibliHex_fetch_changed [of nw inst code r1 d1 r2 d2 lib]
    is_ServiceError_status_changed
  by blast

theorem second_exchange_status_changed_witness:
  "Isgd_fetch lib0 inst0 (head_get_net (Response (mk_resp 200 ''OK'' []) [])
       (Response (mk_resp 404 ''Not Found'' []) ''<html>gone</html>'')) ''abc''
     = Inl (ServiceException ''HTTP status changed from 200 to 404 on second request'')
   \<and> Owly_fetch lib0 inst0 (head_get_net (Response (mk_resp 200 ''OK'' []) [])
       (Response (mk_resp 404 ''Not Found'' []) ''<html>gone</html>'')) ''abc''
     = Inl (ServiceException ''HTTP status changed from 200 to 404 on second request'')
   \<and> Tinyurl_fetch lib0 inst0 (head_get_net (Response (mk_resp 200 ''OK'' []) [])
       (Response (mk_resp 404 ''Not Found'' []) ''<html>gone</html>'')) ''abc''
     = Inl (ServiceException ''HTTP status changed from 200 to 404 on second request'')
   \<and> Snipurl_fetch lib0 inst0 (head_get_net (Response (mk_resp 500 ''Internal Server Error'' []) [])
       (Response (mk_resp 200 ''OK'' []) ''<html>page</html>'')) ''abc''
     = Inl (ServiceException ''HTTP status changed from 500 to 200 on second request'')
   \<and> Visibli_fetch lib0 inst0 (head_get_net (Response (mk_resp 200 ''OK'' []) [])
       (Response (mk_resp 404 ''Not Found'' []) ''<html>gone</html>'')) ''abc''
     = Inl (ServiceException ''HTTP status changed from 200 to 404 on second request'')
   \<and> VisibliHex_fetch lib0 inst0 (head_get_net (Response (mk_resp 200 ''OK'' []) [])
       (Response (mk_resp 404 ''Not Found'' []) ''<html>gone</html>'')) ''abc''
     = Inl (ServiceException ''HTTP status changed from 200 to 404 on second request'')"
  using second_exchange_status_changed [of "mk_resp 404 ''Not Found'' []" "mk_resp 200 ''OK'' []"
      "head_get_net (Response (mk_resp 200 ''OK'' []) [])
         (Response (mk_resp 404 ''Not Found'' []) ''<html>gone</html>'')"
      inst0 "''abc''" "[]" "''<html>gone</html>''" lib0]
    second_exchange_status_changed [of "mk_resp 200 ''OK'' []"
      "mk_resp 500 ''Internal Server Error'' []"
      "head_get_net (Response (mk_resp 500 ''Internal Server Error'' []) [])
         (Response (mk_resp 200 ''OK'' []) ''<html>page</html>'')"
      inst0 "''abc''" "[]" "''<html>page</html>''" lib0]
  by (simp add: head_get_net_def http_request_def mk_resp_def status_changed_def str_int_def
      str_nat.simps)

text \<open>
  Claim C4 as stated fails on \<^verbatim>\<open>Tinyurl\<close>: after a first status 301 with a \<^verbatim>\<open>Location\<close> and
  an \<^verbatim>\<open>X-tiny\<close> header that starts with \<^verbatim>\<open>aff\<close>, \<^verbatim>\<open>_preview\<close> sends a \<^verbatim>\<open>GET\<close> for
  \<^verbatim>\<open>preview.php?num=<code>\<close>, requires status 200 of it, and returns the URL found in its
  body.
\<close>

theorem Tinyurl_preview_counterexample:
  "Tinyurl_fetch lib0 inst0
     (head_get_net
        (Response (mk_resp 301 ''Moved Permanently''
           [(''Location'', ''http://redirect.tinyurl.com/api/click?out=http%3A%2F%2Fexample.org%2F''),
            (''X-tiny'', ''aff'')]) [])
        (Response (mk_resp 200 ''OK'' []) preview_page)) ''abc''
     = Inr (PStr ''http://example.org/'')
   \<and> status (mk_resp 200 ''OK'' []) \<noteq> status (mk_resp 301 ''Moved Permanently''
           [(''Location'', ''http://redirect.tinyurl.com/api/click?out=http%3A%2F%2Fexample.org%2F''),
            (''X-tiny'', ''aff'')])"
  by (simp add: Tinyurl_fetch_def Tinyurl_preview_def http_head_def http_get_def http_fetch_def
      exchange_def head_get_net_def http_request_def mk_resp_def lib0_def)

subsection \<open>The charset of a Yourls service\<close>

text \<open>
  Claim C5, as amended. The \<^verbatim>\<open>charset\<close> property of a Yourls service is the lowercase
  alphanumeric alphabet for base 36 and the mixed-case one for base 62; for any other
  base, reading the property raises \<^verbatim>\<open>RuntimeError\<close>. \<^verbatim>\<open>YourlsService.__init__\<close> does not
  read the base: its result is the same for every base.
\<close>

theorem YourlsService_charset_by_base:
  "(yourls_url_convert cls = 36 \<longrightarrow>
      YourlsService_charset cls = Inr ''0123456789abcdefghijklmnopqrstuvwxyz'')
   \<and> (yourls_url_convert cls = 62 \<longrightarrow>
      YourlsService_charset cls
        = Inr ''0123456789abcdefghijklmnopqrstuvwxyzABCDEFGHIJKLMNOPQRSTUVWXYZ'')
   \<and> (yourls_url_convert cls \<noteq> 36 \<and> yourls_url_convert cls \<noteq> 62 \<longrightarrow>
      YourlsService_charset cls
        = Inl (RuntimeError ''Bad value for yourls_url_convert parameter''))
   \<and> YourlsService_init lib (cls\<lparr>yourls_url_convert := b\<rparr>) = YourlsService_init lib cls"
  by (simp add: YourlsService_charset_def YourlsService_init_def)

theorem YourlsService_charset_by_base_witness:
  "YourlsService_charset Vbly_class = Inr ''0123456789abcdefghijklmnopqrstuvwxyz''
   \<and> YourlsService_charset (Vbly_class\<lparr>yourls_url_convert := 62\<rparr>)
       = Inr ''0123456789abcdefghijklmnopqrstuvwxyzABCDEFGHIJKLMNOPQRSTUVWXYZ''
   \<and> YourlsService_charset (Vbly_class\<lparr>yourls_url_convert := 10\<rparr>)
       = Inl (RuntimeError ''Bad value for yourls_url_convert parameter'')
   \<and> YourlsService_init lib0 (Vbly_class\<lparr>yourls_url_convert := 10\<rparr>)
       = YourlsService_init lib0 Vbly_class"
  using YourlsService_charset_by_base [of Vbly_class lib0 10]
    YourlsService_charset_by_base [of "Vbly_class\<lparr>yourls_url_convert := 62\<rparr>" lib0 62]
    YourlsService_charset_by_base [of "Vbly_class\<lparr>yourls_url_convert := 10\<rparr>" lib0 10]
  by (simp add: Vbly_class_def)

text \<open>
  Claim C5 as stated fails: with base 10 the construction succeeds, and the error comes
  only when \<^verbatim>\<open>charset\<close> is read.
\<close>

theorem YourlsService_init_bad_base_counterexample:
  "YourlsService_init lib0 (Vbly_class\<lparr>yourls_url_convert := 10\<rparr>) = Inr vbly_inst
   \<and> YourlsService_charset (Vbly_class\<lparr>yourls_url_convert := 10\<rparr>)
       = Inl (RuntimeError ''Bad value for yourls_url_convert parameter'')"
  by (simp add: YourlsService_init_def YourlsService_charset_def Vbly_class_def lib0_def
      new_connection_def vbly_inst_def)

subsection \<open>The not-found page of tr.im\<close>

text \<open>
  Claim C6, as amended. When the status is in the redirect set and the \<^verbatim>\<open>Location\<close> is
  \<^verbatim>\<open>http://tr.im/404\<close>, \<^verbatim>\<open>Trimnew.fetch\<close> gives \<open>NoRedirect\<close> for every code but
  \<^verbatim>\<open>500\<close> (for which it raises \<^verbatim>\<open>CodeBlockedException\<close> before any exchange), and
  \<^verbatim>\<open>Trim.fetch\<close> gives \<open>NoRedirect\<close> for every code but \<^verbatim>\<open>404\<close>, for which it returns
  the location.
\<close>

theorem tr_im_404_page:
  assumes "getheader r ''Location'' = Some ''http://tr.im/404''"
  shows "(nw (http_request Trimnew_class inst code ''HEAD'') = Response r d
            \<and> status r \<in> set (http_status_redirect Trimnew_class) \<and> code \<noteq> ''500'' \<longrightarrow>
            outcome_of (Trimnew_fetch inst nw code) = Some NoRedirect)
       \<and> (nw (http_request Trim_class inst code ''HEAD'') = Response r d
            \<and> status r \<in> set (http_status_redirect Trim_class) \<and> code \<noteq> ''404'' \<longrightarrow>
            outcome_of (Trim_fetch inst nw code) = Some NoRedirect)
       \<and> (nw (http_request Trim_class inst ''404'' ''HEAD'') = Response r d
            \<and> status r \<in> set (http_status_redirect Trim_class) \<longrightarrow>
            Trim_fetch inst nw ''404'' = Inr (PStr ''http://tr.im/404''))
       \<and> Trimnew_fetch inst nw ''500'' = Inl (CodeBlockedException None)"
proof -
  have a: "outcome_of (Trimnew_fetch inst nw code) = Some NoRedirect"
    if "nw (http_request Trimnew_class inst code ''HEAD'') = Response r d"
      and "status r \<in> set (http_status_redirect Trimnew_class)" and "code \<noteq> ''500''"
    using that assms
    by (simp add: Trimnew_fetch_def SimpleService_fetch_def http_head_Response)
  have b: "outcome_of (Trim_fetch inst nw code) = Some NoRedirect"
    if "nw (http_request Trim_class inst code ''HEAD'') = Response r d"
      and "status r \<in> set (http_status_redirect Trim_class)" and "code \<noteq> ''404''"
    using that assms by (simp add: Trim_fetch_def http_head_Response)
  have c: "Trim_fetch inst nw ''404'' = Inr (PStr ''http://tr.im/404'')"
    if "nw (http_request Trim_class inst ''404'' ''HEAD'') = Response r d"
      and "status r \<in> set (http_status_redirect Trim_class)"
    using that assms by (simp add: Trim_fetch_def http_head_Response)
  have e: "Trimnew_fetch inst nw ''500'' = Inl (CodeBlockedException None)"
    by (simp add: Trimnew_fetch_def)
  show ?thesis using a b c e by blast
qed

theorem tr_im_404_page_witness:
  "outcome_of (Trimnew_fetch inst0
      (head_net (mk_resp 301 ''Moved Permanently'' [(''Location'', ''http://tr.im/404'')])) ''abc'')
     = Some NoRedirect
   \<and> outcome_of (Trim_fetch inst0
      (head_net (mk_resp 302 ''Found'' [(''Location'', ''http://tr.im/404'')])) ''abc'')
     = Some NoRedirect
   \<and> Trim_fetch inst0
      (head_net (mk_resp 302 ''Found'' [(''Location'', ''http://tr.im/404'')])) ''404''
     = Inr (PStr ''http://tr.im/404'')"
  using tr_im_404_page [of "mk_resp 301 ''Moved Permanently'' [(''Location'', ''http://tr.im/404'')]"
      "head_net (mk_resp 301 ''Moved Permanently'' [(''Location'', ''http://tr.im/404'')])"
      inst0 "''abc''" "[]"]
    tr_im_404_page [of "mk_resp 302 ''Found'' [(''Location'', ''http://tr.im/404'')]"
      "head_net (mk_resp 302 ''Found'' [(''Location'', ''http://tr.im/404'')])"
      inst0 "''abc''" "[]"]
  by (simp add: head_net_def head_get_net_def http_request_def mk_resp_def
      Trim_class_def Trimnew_class_def)

text \<open>
  Claim C6 as stated fails on \<^verbatim>\<open>Trim\<close> for the code \<^verbatim>\<open>404\<close>: the guard
  \<^verbatim>\<open>code != "404"\<close> lets the redirect to \<^verbatim>\<open>http://tr.im/404\<close> through as a long URL.
\<close>

theorem Trim_fetch_404_counterexample:
  "Trim_fetch inst0 (head_net (mk_resp 301 ''Moved Permanently'' [(''Location'', ''http://tr.im/404'')]))
     ''404'' = Inr (PStr ''http://tr.im/404'')
   \<and> status (mk_resp 301 ''Moved Permanently'' [(''Location'', ''http://tr.im/404'')])
       \<in> set (http_status_redirect Trim_class)
   \<and> outcome_of (Trim_fetch inst0
       (head_net (mk_resp 301 ''Moved Permanently'' [(''Location'', ''http://tr.im/404'')])) ''404'')
       \<noteq> Some NoRedirect"
  by (simp add: Trim_fetch_def http_head_def http_fetch_def exchange_def head_net_def
      head_get_net_def http_request_def mk_resp_def Trim_class_def)

subsection \<open>The undefined name in BaseVisibliService\<close>

text \<open>
  Claim C10. \<^verbatim>\<open>BaseVisibliService.unexpected_http_status\<close> on a status that is neither 302
  nor 200 raises \<^verbatim>\<open>NameError\<close> for the undefined name \<^verbatim>\<open>BaseVisbliService\<close>, which is none
  of the five outcomes; \<^verbatim>\<open>Visibli.fetch\<close> and \<^verbatim>\<open>VisibliHex.fetch\<close> raise it on every such
  status that their status tables leave to the hook.
\<close>

theorem BaseVisibliService_hook_NameError:
  assumes "status r \<noteq> 302" and "status r \<noteq> 200"
  shows "BaseVisibliService_unexpected_http_status lib cls inst nw code r
           = Inl (NameError ''BaseVisbliService'')
       \<and> outcome_of (BaseVisibliService_unexpected_http_status lib cls inst nw code r) = None
       \<and> (nw (http_request Visibli_class inst code ''HEAD'') = Response r d
            \<and> status r \<notin> {301, 410, 403, 420, 429} \<longrightarrow>
            Visibli_fetch lib inst nw code = Inl (NameError ''BaseVisbliService''))
       \<and> (nw (http_request VisibliHex_class inst code ''HEAD'') = Response r d
            \<and> status r \<notin> {301, 410, 403, 420, 429} \<longrightarrow>
            VisibliHex_fetch lib inst nw code = Inl (NameError ''BaseVisbliService''))"
proof -
  have hook: "BaseVisibliService_unexpected_http_status lib c inst nw code r
           = Inl (NameError ''BaseVisbliService'')" for c :: "'b http_class_scheme"
    using assms by (simp add: BaseVisibliService_unexpected_http_status_def)
  have v: "Visibli_fetch lib inst nw code = Inl (NameError ''BaseVisbliService'')"
    if "nw (http_request Visibli_class inst code ''HEAD'') = Response r d"
      and "status r \<notin> {301, 410, 403, 420, 429}"
    using that hook [of Visibli_class]
    by (simp add: Visibli_fetch_def SimpleService_fetch_def http_head_Response Visibli_class_def)
  have vh: "VisibliHex_fetch lib inst nw code = Inl (NameError ''BaseVisbliService'')"
    if "nw (http_request VisibliHex_class inst code ''HEAD'') = Response r d"
      and "status r \<notin> {301, 410, 403, 420, 429}"
    using that hook [of VisibliHex_class]
    by (simp add: VisibliHex_fetch_def SimpleService_fetch_def http_head_Response
        VisibliHex_class_def)
  show ?thesis using hook [of cls] v vh by simp
qed

theorem BaseVisibliService_hook_NameError_witness:
  "Visibli_fetch lib0 inst0 (head_net (mk_resp 404 ''Not Found'' [])) ''AHbpFG''
     = Inl (NameError ''BaseVisbliService'')
   \<and> VisibliHex_fetch lib0 inst0 (head_net (mk_resp 404 ''Not Found'' [])) ''fbc5fa''
     = Inl (NameError ''BaseVisbliService'')
   \<and> outcome_of (BaseVisibliService_unexpected_http_status lib0 Visibli_class inst0
        (head_net (mk_resp 404 ''Not Found'' [])) ''AHbpFG'' (mk_resp 404 ''Not Found'' [])) = None"
  using BaseVisibliService_hook_NameError [of "mk_resp 404 ''Not Found'' []" lib0 Visibli_class
      inst0 "head_net (mk_resp 404 ''Not Found'' [])" "''AHbpFG''" "[]"]
    BaseVisibliService_hook_NameError [of "mk_resp 404 ''Not Found'' []" lib0 Visibli_class
      inst0 "head_net (mk_resp 404 ''Not Found'' [])" "''fbc5fa''" "[]"]
  by (simp add: head_net_def head_get_net_def http_request_def mk_resp_def)

subsection \<open>Results that are none of the five outcomes\<close>

text \<open>
  Claim C2 fails on \<^verbatim>\<open>Isgd\<close>: after status 200 twice, a non-empty page with none of the
  three markers makes \<^verbatim>\<open>unexpected_http_status\<close>, and so \<^verbatim>\<open>fetch\<close>, return \<^verbatim>\<open>None\<close>.
\<close>

theorem Isgd_fetch_returns_None:
  "Isgd_fetch lib0 inst0
     (head_get_net (Response (mk_resp 200 ''OK'' []) [])
        (Response (mk_resp 200 ''OK'' []) ''<html>hello</html>'')) ''abc'' = Inr PNone
   \<and> outcome_of (Isgd_fetch lib0 inst0
     (head_get_net (Response (mk_resp 200 ''OK'' []) [])
        (Response (mk_resp 200 ''OK'' []) ''<html>hello</html>'')) ''abc'') = None"
  by (simp add: Isgd_fetch_def SimpleService_fetch_def Isgd_unexpected_http_status_def
      http_head_def http_get_def http_fetch_def exchange_def head_get_net_def
      http_request_def mk_resp_def Isgd_class_def startswith_def)

subsection \<open>Googl\<close>

lemma py_contains_PDict: "py_contains k (PDict kvs) = Inr (map_of kvs k \<noteq> None)"
  by (simp add: map_of_eq_None_iff)

lemma Googl_parse_json_object:
  assumes "json_loads lib body = Some (PDict kvs)"
  shows "(map_of kvs ''kind'' \<noteq> Some (PStr ''urlshortener#url'') \<longrightarrow>
            is_ServiceError (Googl_parse_json lib body))
       \<and> (map_of kvs ''status'' = None \<longrightarrow> is_ServiceError (Googl_parse_json lib body))
       \<and> (map_of kvs ''kind'' = Some (PStr ''urlshortener#url'')
            \<and> map_of kvs ''status'' = Some st \<and> map_of kvs ''longUrl'' = None \<longrightarrow>
            Googl_parse_json lib body
              = Inl (CodeBlockedException (Some (''Status: '' @ format_s lib st))))
       \<and> (map_of kvs ''kind'' = Some (PStr ''urlshortener#url'')
            \<and> map_of kvs ''status'' = Some st \<and> map_of kvs ''longUrl'' = Some v \<longrightarrow>
            Googl_parse_json lib body = Inr v)"
  using assms
  by (auto simp: Googl_parse_json_def py_contains_PDict simp del: py_contains.simps
      split: option.splits)

text \<open>
  Claim C9 fails on a body that is valid JSON but not an object: for the body \<^verbatim>\<open>1\<close>,
  \<^verbatim>\<open>"kind" in data\<close> raises \<^verbatim>\<open>TypeError\<close>, which nothing catches.
\<close>

theorem Googl_fetch_TypeError:
  "Googl_fetch lib0 (get_net (mk_resp 200 ''OK'' []) ''1'') ''abc'' = Inl TypeError
   \<and> outcome_of (Googl_fetch lib0 (get_net (mk_resp 200 ''OK'' []) ''1'') ''abc'') = None"
  by (simp add: Googl_fetch_def Googl_parse_json_def exchange_def get_net_def head_get_net_def
      googl_request_def mk_resp_def lib0_def)

end
